theory Spec2Isabelle
  imports Main "HOL-Library.Sublist"
begin

section \<open>Standard output and error values\<close>

text \<open>
  The only state the program touches is standard output; \<open>fmt.Printf\<close> and
  \<open>fmt.Println\<close> append bytes to it.
\<close>

record world =
  stdout :: string

definition Print :: "string \<Rightarrow> world \<Rightarrow> world" where
  "Print s w = w\<lparr>stdout := stdout w @ s\<rparr>"

definition Println :: "string \<Rightarrow> world \<Rightarrow> world" where
  "Println s w = Print (s @ [CHR 0x0A]) w"

text \<open>
  A Go \<open>error\<close> is an interface value: \<open>nil\<close> (here \<open>None\<close>) or a value with
  an \<open>Error()\<close> method. \<open>fmt.Errorf\<close> without a \<open>%w\<close> verb builds a value
  whose \<open>Error()\<close> is the formatted message.
\<close>

datatype error = errorString (Error: string)

section \<open>strconv.Itoa\<close>

text \<open>
  \<open>strconv.Itoa\<close> of the Go standard library writes the base-10 digits of the
  magnitude, most significant first, with a leading minus sign for a negative
  number. \<open>%d\<close> of \<open>fmt\<close> formats an \<open>int\<close> operand the same way.
  Go's \<open>int\<close> is a 32- or 64-bit signed integer; the program does no arithmetic on
  it, so it is modelled by the mathematical integers, which contain both ranges.
  \<open>formatBits\<close> is the digit loop: the quotient by 10 gives the digits to the left,
  the remainder the last digit.
\<close>

definition digit_char :: "nat \<Rightarrow> char" where
  "digit_char d = char_of (48 + d)"

function formatBits :: "nat \<Rightarrow> string" where
  "formatBits u = (if u < 10 then [digit_char u] else formatBits (u div 10) @ [digit_char (u mod 10)])"
  by pat_completeness auto
termination
  by (relation "measure (\<lambda>u. u)") auto

declare formatBits.simps [simp del]

definition Itoa :: "int \<Rightarrow> string" where
  "Itoa i = (if i < 0 then CHR ''-'' # formatBits (nat (- i)) else formatBits (nat i))"

subsection \<open>What a decimal representation is\<close>

text \<open>
  Independently of how \<open>Itoa\<close> computes: a string is the decimal representation of
  an integer when it is an optional minus sign (present exactly for a negative number)
  followed by decimal digits without a superfluous leading zero, and the digits, read
  in base 10, give the magnitude.
\<close>

definition is_digit :: "char \<Rightarrow> bool" where
  "is_digit c \<longleftrightarrow> (48::nat) \<le> of_char c \<and> of_char c \<le> (57::nat)"

definition digit_value :: "char \<Rightarrow> nat" where
  "digit_value c = of_char c - 48"

definition digits_value :: "string \<Rightarrow> nat" where
  "digits_value ds = foldl (\<lambda>a c. 10 * a + digit_value c) 0 ds"

definition canonical_digits :: "string \<Rightarrow> bool" where
  "canonical_digits ds \<longleftrightarrow>
     ds \<noteq> [] \<and> list_all is_digit ds \<and> (hd ds = CHR ''0'' \<longrightarrow> ds = ''0'')"

definition decimal_of :: "string \<Rightarrow> int \<Rightarrow> bool" where
  "decimal_of s n \<longleftrightarrow>
     (if s \<noteq> [] \<and> hd s = CHR ''-''
      then n < 0 \<and> canonical_digits (tl s) \<and> int (digits_value (tl s)) = - n
      else 0 \<le> n \<and> canonical_digits s \<and> int (digits_value s) = n)"

section \<open>Package doer\<close>

text \<open>
  The interface \<open>Doer\<close> has the single method \<open>DoSomething(int, string) error\<close>.
  An interface value is modelled by its method, a function of the two arguments and
  of the state the implementation works on, returning the error and the new state.
  The state \<open>'w\<close> and the error values \<open>'e\<close> are left open: any implementation fits.
\<close>

type_synonym ('w, 'e) Doer = "int \<Rightarrow> string \<Rightarrow> 'w \<Rightarrow> 'e option \<times> 'w"

datatype doerImpl = doerImpl

definition NewDoer :: doerImpl where
  "NewDoer = doerImpl"

definition DoSomething :: "doerImpl \<Rightarrow> (world, error) Doer" where
  "DoSomething d n str w =
     (let w' = Print (''DoSomething '' @ str @ '' '' @ Itoa n @ '' times'' @ [CHR 0x0A]) w
      in if Itoa n = str then (None, w')
         else (Some (errorString (''error: '' @ str @ '' != '' @ Itoa n)), w'))"

section \<open>Package user\<close>

text \<open>
  \<open>User\<close> is a struct with the single field \<open>Doer\<close>. \<open>Use\<close> has a pointer
  receiver: the model returns the receiver's contents after the call next to the error
  and the state, so that a write through the pointer would show in the result.
\<close>

record ('w, 'e) User =
  Doer :: "('w, 'e) Doer"

definition Use :: "('w, 'e) User \<Rightarrow> 'w \<Rightarrow> 'e option \<times> ('w, 'e) User \<times> 'w" where
  "Use u w = (case Doer u 123 ''Hello GoMock'' w of (err, w') \<Rightarrow> (err, u, w'))"

definition NewUser :: "('w, 'e) Doer \<Rightarrow> ('w, 'e) User" where
  "NewUser doer = \<lparr>Doer = doer\<rparr>"

text \<open>
  A capability that logs the arguments of every call it receives and hands the call
  on to another capability, as a test double does. It makes the calls a consumer
  issues observable.
\<close>

record 'w spied =
  calls :: "(int \<times> string) list"
  inner :: 'w

definition spy :: "('w, 'e) Doer \<Rightarrow> ('w spied, 'e) Doer" where
  "spy d n str s =
     (case d n str (inner s) of
        (err, w') \<Rightarrow> (err, \<lparr>calls = calls s @ [(n, str)], inner = w'\<rparr>))"

section \<open>Package main\<close>

text \<open>
  \<open>main\<close> returns normally on every path and never calls \<open>os.Exit\<close>; the second
  component of the result is the exit status of the process, 0 after a normal return.
\<close>

definition main :: "world \<Rightarrow> world \<times> nat" where
  "main w0 =
     (let w1 = Println ''start'' w0;
          doer = NewDoer;
          user = NewUser (DoSomething doer);
          (err, user', w2) = Use user w1;
          w3 = (case err of None \<Rightarrow> w2 | Some e \<Rightarrow> Println (Error e) w2);
          w4 = Println ''end'' w3
      in (w4, 0))"

text \<open>The body of \<open>main\<close> with the capability of line 12 as a parameter.\<close>

definition main_with :: "(world, error) Doer \<Rightarrow> world \<Rightarrow> world \<times> nat" where
  "main_with doer w0 =
     (let w1 = Println ''start'' w0;
          user = NewUser doer;
          (err, user', w2) = Use user w1;
          w3 = (case err of None \<Rightarrow> w2 | Some e \<Rightarrow> Println (Error e) w2);
          w4 = Println ''end'' w3
      in (w4, 0))"

section \<open>Package match\<close>

text \<open>
  An \<open>interface{}\<close> value is \<open>nil\<close> or a dynamic type with a value.
  \<open>reflect.TypeOf\<close> gives the dynamic type, and the nil \<open>reflect.Type\<close> for
  the nil interface; calling \<open>String()\<close> on that nil \<open>Type\<close> panics with a nil
  dereference. The types below are the fragment of Go's types the development needs;
  \<open>rtype_String\<close> is \<open>reflect.Type.String\<close> on it.
\<close>

datatype rtype =
  Basic string
  | Named string string
  | PtrTo rtype
  | SliceOf rtype

fun rtype_String :: "rtype \<Rightarrow> string" where
  "rtype_String (Basic name) = name"
| "rtype_String (Named pkg name) = pkg @ ''.'' @ name"
| "rtype_String (PtrTo elem) = ''*'' @ rtype_String elem"
| "rtype_String (SliceOf elem) = ''[]'' @ rtype_String elem"

datatype 'a iface = nil | iface rtype 'a

fun TypeOf :: "'a iface \<Rightarrow> rtype option" where
  "TypeOf nil = None"
| "TypeOf (iface ty v) = Some ty"

datatype panic = NilDereference

record ofType =
  ofType_t :: string

definition NewOfType :: "string \<Rightarrow> ofType" where
  "NewOfType t = \<lparr>ofType_t = t\<rparr>"

definition Matches :: "ofType \<Rightarrow> 'a iface \<Rightarrow> panic + bool" where
  "Matches m x =
     (case TypeOf x of
        None \<Rightarrow> Inl NilDereference
      | Some ty \<Rightarrow> Inr (rtype_String ty = ofType_t m))"

definition ofType_String :: "ofType \<Rightarrow> string" where
  "ofType_String m = ''is of type '' @ ofType_t m"

section \<open>The consumer behind its pointer\<close>

text \<open>
  \<open>NewUser\<close> returns a pointer to a fresh \<open>User\<close>, and the field \<open>Doer\<close> is
  exported: the struct behind a \<open>*User\<close> can be written by any code that holds the
  pointer, a client or a capability. To follow such writes the \<open>User\<close> structs live
  in a store and a pointer is a position in it. The field \<open>Doer\<close> holds a reference
  \<open>'d\<close> to a capability, whose method is found through the method table \<open>impl\<close>,
  as a call on an interface value is dispatched. A capability works on the whole
  store, so it can reach the consumer that holds it; \<open>others\<close> is the state the
  capabilities have of their own. A pointer to no struct is \<open>nil\<close>: reading or
  writing a field through it panics.
\<close>

type_synonym addr = nat

record 'd User_cell =
  Doer_ref :: 'd

record ('d, 'w) store =
  users :: "'d User_cell list"
  others :: 'w

definition deref :: "('d, 'w) store \<Rightarrow> addr \<Rightarrow> 'd User_cell option" where
  "deref \<sigma> u = (if u < length (users \<sigma>) then Some (users \<sigma> ! u) else None)"

definition Use_ptr ::
    "('d \<Rightarrow> (('d, 'w) store, 'e) Doer) \<Rightarrow> addr \<Rightarrow> ('d, 'w) store \<Rightarrow> panic + 'e option \<times> ('d, 'w) store" where
  "Use_ptr impl u \<sigma> =
     (case deref \<sigma> u of
        None \<Rightarrow> Inl NilDereference
      | Some obj \<Rightarrow> Inr (impl (Doer_ref obj) 123 ''Hello GoMock'' \<sigma>))"



text \<open>
  The stores a consumer \<open>u\<close> can see when, from the store \<open>\<sigma>0\<close> on, nothing but
  \<open>Use\<close> is invoked on it: every step is one \<open>u.Use()\<close>, and the store after it
  is the one the capability called left.
\<close>

inductive_set used_from ::
    "('d \<Rightarrow> (('d, 'w) store, 'e) Doer) \<Rightarrow> addr \<Rightarrow> ('d, 'w) store \<Rightarrow> ('d, 'w) store set"
  for impl :: "'d \<Rightarrow> (('d, 'w) store, 'e) Doer" and u :: addr and \<sigma>0 :: "('d, 'w) store" where
  start: "\<sigma>0 \<in> used_from impl u \<sigma>0"
| use: "\<sigma> \<in> used_from impl u \<sigma>0 \<Longrightarrow> Use_ptr impl u \<sigma> = Inr (err, \<sigma>') \<Longrightarrow>
    \<sigma>' \<in> used_from impl u \<sigma>0"



section \<open>The test substitute\<close>

text \<open>
  Modelled from the spec: the substitute capability (the generated
  \<open>mocks/mock_doer.go\<close> and the controller it hands every call to) is not among the
  sources. The definitions follow sections 4.3 and 9 of the specification: argument
  matchers are a tagged variant (exact value, predicate, wildcard); an expectation
  carries one matcher per positional argument, the bounds on its number of calls, the
  number of calls it has received, the expectations that must be satisfied before it
  is eligible (by their position in declaration order), and the canned outcome; the
  substitute keeps the expectations in declaration order and records every invocation.
\<close>

datatype arg = IntArg int | StringArg string

datatype matcher = ExactValue arg | PredicateMatcher "arg \<Rightarrow> bool" | Wildcard

fun matcher_Matches :: "matcher \<Rightarrow> arg \<Rightarrow> bool" where
  "matcher_Matches (ExactValue v) x = (x = v)"
| "matcher_Matches (PredicateMatcher p) x = p x"
| "matcher_Matches Wildcard x = True"

text \<open>
  An argument of a declaration is a plain value, which stands for the exact-value
  matcher of that value, or an explicit matcher.
\<close>

datatype expected_arg = Value arg | Matching matcher

fun as_matcher :: "expected_arg \<Rightarrow> matcher" where
  "as_matcher (Value v) = ExactValue v"
| "as_matcher (Matching m) = m"

record expectation =
  matchers :: "matcher list"
  min_calls :: nat
  max_calls :: nat
  num_calls :: nat
  prerequisites :: "nat list"
  outcome :: "error option"

record substitute =
  expectations :: "expectation list"
  recorded :: "arg list list"

definition satisfied :: "expectation \<Rightarrow> bool" where
  "satisfied e \<longleftrightarrow> min_calls e \<le> num_calls e"

definition exhausted :: "expectation \<Rightarrow> bool" where
  "exhausted e \<longleftrightarrow> max_calls e \<le> num_calls e"

text \<open>A prerequisite that names no declared expectation is never satisfied.\<close>

definition order_eligible :: "expectation list \<Rightarrow> expectation \<Rightarrow> bool" where
  "order_eligible es e \<longleftrightarrow>
     list_all (\<lambda>i. i < length es \<and> satisfied (es ! i)) (prerequisites e)"

definition args_match :: "expectation \<Rightarrow> arg list \<Rightarrow> bool" where
  "args_match e args \<longleftrightarrow> list_all2 matcher_Matches (matchers e) args"

definition selectable :: "expectation list \<Rightarrow> arg list \<Rightarrow> expectation \<Rightarrow> bool" where
  "selectable es args e \<longleftrightarrow> \<not> exhausted e \<and> order_eligible es e \<and> args_match e args"

fun find_first :: "('a \<Rightarrow> bool) \<Rightarrow> 'a list \<Rightarrow> nat \<Rightarrow> nat option" where
  "find_first P [] i = None"
| "find_first P (x # xs) i = (if P x then Some i else find_first P xs (Suc i))"

definition FindMatch :: "substitute \<Rightarrow> arg list \<Rightarrow> nat option" where
  "FindMatch s args = find_first (selectable (expectations s) args) (expectations s) 0"

fun show_arg :: "arg \<Rightarrow> string" where
  "show_arg (IntArg n) = Itoa n"
| "show_arg (StringArg str) = str"

fun join :: "string \<Rightarrow> string list \<Rightarrow> string" where
  "join sep [] = []"
| "join sep [x] = x"
| "join sep (x # y # ys) = x @ sep @ join sep (y # ys)"

definition show_call :: "arg list \<Rightarrow> string" where
  "show_call args = ''DoSomething('' @ join '', '' (map show_arg args) @ '')''"

datatype test_failure = Fatal string

definition Call :: "substitute \<Rightarrow> arg list \<Rightarrow> test_failure + error option \<times> substitute" where
  "Call s args =
     (case FindMatch s args of
        None \<Rightarrow> Inl (Fatal (''unexpected call to '' @ show_call args))
      | Some i \<Rightarrow>
          (let e = expectations s ! i
           in Inr (outcome e,
                   s\<lparr>expectations := (expectations s)[i := e\<lparr>num_calls := Suc (num_calls e)\<rparr>],
                     recorded := recorded s @ [args]\<rparr>)))"

section \<open>Itoa writes the decimal representation\<close>

lemma digit_char_props:
  assumes "d < 10"
  shows "is_digit (digit_char d)" and "digit_value (digit_char d) = d"
  using assms by (simp_all add: is_digit_def digit_value_def digit_char_def)

lemma digit_value_props:
  assumes "is_digit c"
  shows "digit_char (digit_value c) = c" and "digit_value c < 10"
  using assms by (auto simp add: is_digit_def digit_value_def digit_char_def)

lemma digit_char_0: "digit_char 0 = CHR ''0''"
  by code_simp

lemma digit_char_zero: "digit_char d = CHR ''0'' \<Longrightarrow> d < 10 \<Longrightarrow> d = 0"
  using digit_char_props(2)[of d] by (simp add: digit_value_def)

lemma digits_value_snoc: "digits_value (ds @ [c]) = 10 * digits_value ds + digit_value c"
  by (simp add: digits_value_def)

lemma formatBits_nonempty: "formatBits u \<noteq> []"
  by (subst formatBits.simps) simp

lemma formatBits_digits: "list_all is_digit (formatBits u)"
proof (induction u rule: formatBits.induct)
  case (1 u)
  show ?case
  proof (cases "u < 10")
    case True
    then show ?thesis by (subst formatBits.simps) (simp add: digit_char_props)
  next
    case False
    with 1 show ?thesis by (subst formatBits.simps) (simp add: digit_char_props)
  qed
qed

lemma formatBits_value: "digits_value (formatBits u) = u"
proof (induction u rule: formatBits.induct)
  case (1 u)
  show ?case
  proof (cases "u < 10")
    case True
    then show ?thesis by (subst formatBits.simps) (simp add: digit_char_props digits_value_def)
  next
    case False
    with 1 show ?thesis by (subst formatBits.simps) (simp add: digit_char_props digits_value_snoc)
  qed
qed

lemma formatBits_hd_zero: "hd (formatBits u) = CHR ''0'' \<Longrightarrow> u = 0"
proof (induction u rule: formatBits.induct)
  case (1 u)
  show ?case
  proof (cases "u < 10")
    case True
    with 1(2) show ?thesis by (subst (asm) formatBits.simps) (simp add: digit_char_zero)
  next
    case False
    with 1(2) have "hd (formatBits (u div 10)) = CHR ''0''"
      by (subst (asm) formatBits.simps) (simp add: formatBits_nonempty)
    with 1(1) False have "u div 10 = 0" by simp
    with False show ?thesis by simp
  qed
qed

lemma formatBits_zero: "formatBits 0 = ''0''"
  by code_simp

lemma formatBits_canonical: "canonical_digits (formatBits u)"
  using formatBits_hd_zero [of u] formatBits_zero
  by (auto simp add: canonical_digits_def formatBits_nonempty formatBits_digits)

lemma digits_value_pos:
  "ds \<noteq> [] \<Longrightarrow> list_all is_digit ds \<Longrightarrow> hd ds \<noteq> CHR ''0'' \<Longrightarrow> 0 < digits_value ds"
proof (induction ds rule: rev_induct)
  case Nil
  then show ?case by simp
next
  case (snoc c ds)
  show ?case
  proof (cases "ds = []")
    case True
    with snoc.prems have "is_digit c" "c \<noteq> CHR ''0''" by simp_all
    then have "0 < digit_value c"
      using digit_value_props(1)[of c] digit_char_0 by (cases "digit_value c = 0") auto
    with True show ?thesis by (simp add: digits_value_def)
  next
    case False
    with snoc have "0 < digits_value ds" by simp
    then show ?thesis by (simp add: digits_value_snoc)
  qed
qed

lemma formatBits_digits_value:
  "canonical_digits ds \<Longrightarrow> formatBits (digits_value ds) = ds"
proof (induction ds rule: rev_induct)
  case Nil
  then show ?case by (simp add: canonical_digits_def)
next
  case (snoc c ds)
  from snoc.prems have c: "is_digit c" by (simp add: canonical_digits_def)
  show ?case
  proof (cases "ds = []")
    case True
    with c show ?thesis
      by (subst formatBits.simps) (simp add: digits_value_def digit_value_props)
  next
    case False
    with snoc.prems have nz: "hd ds \<noteq> CHR ''0''" and dg: "list_all is_digit ds"
      by (auto simp add: canonical_digits_def)
    with False have can: "canonical_digits ds" by (simp add: canonical_digits_def)
    from False nz dg have pos: "0 < digits_value ds" by (simp add: digits_value_pos)
    have lt: "digit_value c < 10" using c by (rule digit_value_props)
    from pos have big: "\<not> digits_value (ds @ [c]) < 10" by (simp add: digits_value_snoc)
    have "formatBits (digits_value (ds @ [c])) =
        formatBits (digits_value (ds @ [c]) div 10) @ [digit_char (digits_value (ds @ [c]) mod 10)]"
      using big by (subst formatBits.simps) simp
    also have "digits_value (ds @ [c]) div 10 = digits_value ds"
      using lt by (simp add: digits_value_snoc)
    also have "digits_value (ds @ [c]) mod 10 = digit_value c"
      using lt by (simp add: digits_value_snoc)
    finally show ?thesis using snoc.IH [OF can] c by (simp add: digit_value_props)
  qed
qed

lemma formatBits_no_sign: "hd (formatBits u) \<noteq> CHR ''-''"
proof -
  have "is_digit (hd (formatBits u))"
    using formatBits_digits [of u] formatBits_nonempty [of u]
    by (cases "formatBits u") simp_all
  then show ?thesis by (auto simp add: is_digit_def)
qed

lemma canonical_no_sign: "canonical_digits ds \<Longrightarrow> hd ds \<noteq> CHR ''-''"
  by (cases ds) (auto simp add: canonical_digits_def is_digit_def)

lemma Itoa_decimal_of: "Itoa n = s \<longleftrightarrow> decimal_of s n"
proof
  assume "Itoa n = s"
  then have s: "s = Itoa n" by simp
  show "decimal_of s n"
  proof (cases "n < 0")
    case True
    then show ?thesis
      by (simp add: s decimal_of_def Itoa_def formatBits_canonical formatBits_value)
  next
    case False
    then show ?thesis
      by (simp add: s decimal_of_def Itoa_def formatBits_canonical formatBits_value
          formatBits_no_sign)
  qed
next
  assume d: "decimal_of s n"
  show "Itoa n = s"
  proof (cases "s \<noteq> [] \<and> hd s = CHR ''-''")
    case True
    with d have n: "n < 0" and can: "canonical_digits (tl s)" and v: "int (digits_value (tl s)) = - n"
      by (simp_all add: decimal_of_def)
    from v have "nat (- n) = digits_value (tl s)" by simp
    with n can True show ?thesis
      by (cases s) (simp_all add: Itoa_def formatBits_digits_value)
  next
    case False
    with d have n: "0 \<le> n" and can: "canonical_digits s" and v: "int (digits_value s) = n"
      by (auto simp add: decimal_of_def)
    from v have "nat n = digits_value s" by simp
    with n can show ?thesis
      by (simp add: Itoa_def formatBits_digits_value)
  qed
qed

lemma Itoa_123: "Itoa 123 = ''123''"
  by code_simp

lemma sublist_mid: "sublist xs (a @ xs @ b)"
  by (rule sublist_appendI)

lemma sublist_end: "sublist xs (a @ b @ xs)"
  using sublist_append_leftI [of xs "a @ b"] by simp

section \<open>The real capability\<close>

text \<open>
  C1. For every integer \<open>n\<close> and string \<open>s\<close>, \<open>DoSomething(n, s)\<close> of the real
  capability returns \<open>nil\<close> exactly when \<open>s\<close> is the decimal representation of
  \<open>n\<close>; otherwise it returns an error whose message contains both \<open>s\<close> and the
  decimal representation of \<open>n\<close>.
\<close>

theorem DoSomething_success_iff_decimal:
  "(fst (DoSomething d n s w) = None \<longleftrightarrow> decimal_of s n) \<and>
   (\<not> decimal_of s n \<longrightarrow>
      (\<exists>msg. fst (DoSomething d n s w) = Some (errorString msg) \<and>
         msg = ''error: '' @ s @ '' != '' @ Itoa n \<and>
         sublist s msg \<and> sublist (Itoa n) msg \<and> decimal_of (Itoa n) n))"
proof -
  have dec: "Itoa n = s \<longleftrightarrow> decimal_of s n"
    by (rule Itoa_decimal_of)
  have self: "decimal_of (Itoa n) n"
    using Itoa_decimal_of [of n "Itoa n"] by simp
  have mid: "sublist s (''error: '' @ s @ '' != '' @ Itoa n)"
    by (rule sublist_mid)
  have last: "sublist (Itoa n) (''error: '' @ s @ ('' != '' @ Itoa n))"
    using sublist_end [of "Itoa n" "''error: '' @ s" "'' != ''"] by simp
  show ?thesis
    using dec self mid last by (simp add: DoSomething_def Let_def)
qed

theorem DoSomething_success_iff_decimal_witness:
  "decimal_of ''123'' 123 \<and>
   fst (DoSomething NewDoer 123 ''123'' \<lparr>stdout = []\<rparr>) = None \<and>
   \<not> decimal_of ''0123'' 123 \<and>
   fst (DoSomething NewDoer 123 ''0123'' \<lparr>stdout = []\<rparr>) =
     Some (errorString ''error: 0123 != 123'')"
proof -
  have yes: "decimal_of ''123'' 123"
    by code_simp
  have no: "\<not> decimal_of ''0123'' 123"
    by code_simp
  show ?thesis
    using yes no
      DoSomething_success_iff_decimal [of NewDoer 123 "''123''" "\<lparr>stdout = []\<rparr>"]
      DoSomething_success_iff_decimal [of NewDoer 123 "''0123''" "\<lparr>stdout = []\<rparr>"]
    by (simp add: Itoa_123)
qed

text \<open>
  C4. \<open>DoSomething(123, "124")\<close> on the real capability fails, and the message is
  exactly \<open>error: 124 != 123\<close>: the label comes before the count.
\<close>

theorem DoSomething_123_124:
  "fst (DoSomething NewDoer 123 ''124'' w) = Some (errorString ''error: 124 != 123'')"
  by (simp add: DoSomething_def Itoa_123 Let_def)

section \<open>The consumer\<close>

text \<open>
  C2. Whatever the capability \<open>d\<close>, \<open>Use\<close> on the consumer built with \<open>d\<close>
  calls \<open>d.DoSomething\<close> exactly once, with the arguments \<open>(123, "Hello GoMock")\<close>:
  with the logging wrapper around \<open>d\<close>, the log grows by that one entry, and the
  error and the state of \<open>d\<close> are those of one call of \<open>d\<close> with these arguments.
\<close>

theorem Use_calls_capability_once:
  "calls (snd (snd (Use (NewUser (spy d)) s))) = calls s @ [(123, ''Hello GoMock'')] \<and>
   (fst (Use (NewUser (spy d)) s), inner (snd (snd (Use (NewUser (spy d)) s)))) =
     d 123 ''Hello GoMock'' (inner s)"
  by (simp add: Use_def NewUser_def spy_def split: prod.splits)

text \<open>
  C3. The value \<open>Use\<close> returns is the value \<open>DoSomething(123, "Hello GoMock")\<close> of
  the held capability returned, \<open>nil\<close> or a failure alike, and the state is the one
  that single call left: nothing is retried or reinterpreted.
\<close>

theorem Use_returns_capability_result:
  "fst (Use (NewUser d) w) = fst (d 123 ''Hello GoMock'' w) \<and>
   snd (snd (Use (NewUser d) w)) = snd (d 123 ''Hello GoMock'' w) \<and>
   fst (Use u w) = fst (Doer u 123 ''Hello GoMock'' w)"
  by (simp add: Use_def NewUser_def split: prod.splits)

subsection \<open>The consumer behind its pointer\<close>



text \<open>On a live pointer, \<open>Use_ptr\<close> is \<open>Use\<close> on the struct read through it.\<close>

lemma Use_ptr_Use:
  "deref \<sigma> u = Some obj \<Longrightarrow>
     Use_ptr impl u \<sigma> =
       Inr (fst (Use (NewUser (impl (Doer_ref obj))) \<sigma>),
            snd (snd (Use (NewUser (impl (Doer_ref obj))) \<sigma>)))"
  by (simp add: Use_ptr_def Use_def NewUser_def split: prod.splits)





section \<open>The entry point\<close>

lemma main_wiring: "main = main_with (DoSomething NewDoer)"
  by (rule ext) (simp add: main_def main_with_def)

lemma stdout_Println: "stdout (Println s w) = stdout w @ s @ [CHR 0x0A]"
  by (simp add: Println_def Print_def)

lemma main_with_result:
  "main_with d w =
     (Println ''end''
        (case fst (d 123 ''Hello GoMock'' (Println ''start'' w)) of
           None \<Rightarrow> snd (d 123 ''Hello GoMock'' (Println ''start'' w))
         | Some e \<Rightarrow> Println (Error e) (snd (d 123 ''Hello GoMock'' (Println ''start'' w)))), 0)"
  by (cases "d 123 ''Hello GoMock'' (Println ''start'' w)")
    (simp add: main_with_def Use_def NewUser_def Let_def split: option.splits)

text \<open>
  C7. \<open>main\<close> builds the real capability, wires it into a consumer and invokes
  \<open>Use\<close>. Whatever the capability wired in, what is printed after the call is the
  error message and a newline when the outcome is a failure and nothing when it is a
  success, followed by \<open>end\<close>; the exit status is 0 in both cases.
\<close>

theorem main_prints_error_iff_failure:
  "main = main_with (DoSomething NewDoer) \<and>
   snd (main_with d w) = 0 \<and>
   stdout (fst (main_with d w)) =
     stdout (snd (d 123 ''Hello GoMock'' (Println ''start'' w))) @
     (case fst (d 123 ''Hello GoMock'' (Println ''start'' w)) of
        None \<Rightarrow> []
      | Some e \<Rightarrow> Error e @ [CHR 0x0A]) @
     ''end'' @ [CHR 0x0A]"
  by (simp add: main_wiring main_with_result stdout_Println split: option.splits)

lemma main_with_success: "main_with (\<lambda>n str w. (None, w)) \<lparr>stdout = []\<rparr> =
    (\<lparr>stdout = ''start'' @ [CHR 0x0A] @ ''end'' @ [CHR 0x0A]\<rparr>, 0)"
  by (simp add: main_with_result Println_def Print_def)

text \<open>
  C8. As wired in \<open>main\<close>, with the real capability, \<open>Use\<close> always fails, with
  the message \<open>error: Hello GoMock != 123\<close>, since the decimal representation of
  123 is \<open>123\<close>; so \<open>main\<close> always prints the error line.
\<close>

theorem demo_always_fails:
  "Itoa 123 = ''123'' \<and>
   fst (Use (NewUser (DoSomething NewDoer)) w) =
     Some (errorString ''error: Hello GoMock != 123'') \<and>
   stdout (fst (main w)) =
     stdout w @ ''start'' @ [CHR 0x0A] @
     ''DoSomething Hello GoMock 123 times'' @ [CHR 0x0A] @
     ''error: Hello GoMock != 123'' @ [CHR 0x0A] @
     ''end'' @ [CHR 0x0A] \<and>
   snd (main w) = 0"
  by (simp add: main_wiring main_with_result stdout_Println Use_def NewUser_def
      DoSomething_def Itoa_123 Let_def Print_def Println_def)

section \<open>The type matcher\<close>

text \<open>
  C9. For every string \<open>t\<close> and every argument \<open>x\<close> with a non-nil dynamic type,
  \<open>Matches(x)\<close> of the matcher built by \<open>NewOfType(t)\<close> is true exactly when the
  string form of the dynamic type of \<open>x\<close> is \<open>t\<close>, and \<open>String()\<close> is
  \<open>"is of type "\<close> followed by \<open>t\<close>.
\<close>

theorem ofType_Matches_iff:
  "TypeOf x = Some ty \<Longrightarrow>
     Matches (NewOfType t) x = Inr (rtype_String ty = t) \<and>
     ofType_String (NewOfType t) = ''is of type '' @ t"
  by (simp add: Matches_def NewOfType_def ofType_String_def)

theorem ofType_Matches_iff_witness:
  "TypeOf (iface (Basic ''string'') ''Hello GoMock'') = Some (Basic ''string'') \<and>
   Matches (NewOfType ''string'') (iface (Basic ''string'') ''Hello GoMock'') = Inr True \<and>
   Matches (NewOfType ''int'') (iface (Basic ''string'') ''Hello GoMock'') = Inr False \<and>
   ofType_String (NewOfType ''string'') = ''is of type string''"
proof -
  have ty: "TypeOf (iface (Basic ''string'') ''Hello GoMock'') = Some (Basic ''string'')"
    by simp
  from ty ofType_Matches_iff [OF ty, of "''string''"] ofType_Matches_iff [OF ty, of "''int''"]
  show ?thesis
    by simp
qed

text \<open>
  C10. \<open>Matches\<close> is not total: on the nil interface \<open>reflect.TypeOf\<close> gives the
  nil type and the call of \<open>String()\<close> on it panics; \<open>Matches\<close> returns a boolean
  exactly for the arguments that carry a dynamic type.
\<close>

theorem Matches_nil_panics:
  "Matches m nil = Inl NilDereference \<and>
   ((\<exists>b. Matches m x = Inr b) \<longleftrightarrow> x \<noteq> nil)"
  by (cases x) (simp_all add: Matches_def)

section \<open>The matching policy of the test substitute\<close>

lemma find_first_Some:
  "find_first P xs k = Some i \<Longrightarrow>
     k \<le> i \<and> i - k < length xs \<and> P (xs ! (i - k)) \<and> (\<forall>j<i - k. \<not> P (xs ! j))"
proof (induction xs arbitrary: k)
  case Nil
  then show ?case by simp
next
  case (Cons x xs)
  show ?case
  proof (cases "P x")
    case True
    with Cons.prems show ?thesis by simp
  next
    case False
    with Cons.prems have "find_first P xs (Suc k) = Some i" by simp
    from Cons.IH [OF this] have le: "Suc k \<le> i" and len: "i - Suc k < length xs"
      and hit: "P (xs ! (i - Suc k))" and miss: "\<forall>j<i - Suc k. \<not> P (xs ! j)"
      by simp_all
    from le have idx: "i - k = Suc (i - Suc k)" by simp
    have "\<not> P ((x # xs) ! j)" if "j < i - k" for j
    proof (cases j)
      case 0
      with False show ?thesis by simp
    next
      case (Suc j')
      with that idx miss show ?thesis by simp
    qed
    with le len hit idx show ?thesis by simp
  qed
qed

lemma find_first_None:
  "find_first P xs k = None \<Longrightarrow> j < length xs \<Longrightarrow> \<not> P (xs ! j)"
proof (induction xs arbitrary: k j)
  case Nil
  then show ?case by simp
next
  case (Cons x xs)
  then show ?case
    by (cases j) (auto split: if_splits)
qed

lemma sublist_join: "a \<in> set xs \<Longrightarrow> sublist a (join sep xs)"
proof (induction sep xs rule: join.induct)
  case (1 sep)
  then show ?case by simp
next
  case (2 sep x)
  then show ?case by simp
next
  case (3 sep x y ys)
  show ?case
  proof (cases "a = x")
    case True
    then show ?thesis by simp
  next
    case False
    with 3 have "sublist a (join sep (y # ys))" by simp
    then obtain p q where "join sep (y # ys) = p @ a @ q"
      by (auto simp add: sublist_def)
    then have "join sep (x # y # ys) = (x @ sep @ p) @ a @ q" by simp
    then show ?thesis
      unfolding sublist_def by blast
  qed
qed

lemma show_call_names_method: "sublist ''DoSomething'' (''unexpected call to '' @ show_call args)"
proof -
  have "''unexpected call to '' @ show_call args =
      ''unexpected call to '' @ ''DoSomething'' @ (''('' @ join '', '' (map show_arg args) @ '')'')"
    by (simp add: show_call_def)
  then show ?thesis
    unfolding sublist_def by blast
qed

lemma show_call_names_args:
  "list_all (\<lambda>a. sublist (show_arg a) (''unexpected call to '' @ show_call args)) args"
proof -
  have "sublist (show_arg a) (''unexpected call to '' @ show_call args)" if "a \<in> set args" for a
  proof -
    from that have "sublist (show_arg a) (join '', '' (map show_arg args))"
      by (simp add: sublist_join)
    then obtain p q where "join '', '' (map show_arg args) = p @ show_arg a @ q"
      by (auto simp add: sublist_def)
    then have "''unexpected call to '' @ show_call args =
        (''unexpected call to DoSomething('' @ p) @ show_arg a @ (q @ '')'')"
      by (simp add: show_call_def)
    then show ?thesis
      unfolding sublist_def by blast
  qed
  then show ?thesis
    by (simp add: list_all_iff)
qed

text \<open>
  C5. An incoming call is matched by the first expectation, in declaration order, that
  is not exhausted, is order-eligible, and whose matchers (exact value, predicate or
  wildcard, one per position) all accept the arguments; the call returns that
  expectation's outcome. If no declared expectation is such, the substitute fails the
  test at once with a message that names the call and each of its arguments.
\<close>

theorem Call_selects_first_match:
  "(case Call s args of
      Inr (r, s') \<Rightarrow>
        (\<exists>i<length (expectations s).
           \<not> exhausted (expectations s ! i) \<and>
           order_eligible (expectations s) (expectations s ! i) \<and>
           length (matchers (expectations s ! i)) = length args \<and>
           (\<forall>k<length args. matcher_Matches (matchers (expectations s ! i) ! k) (args ! k)) \<and>
           (\<forall>j<i. \<not> selectable (expectations s) args (expectations s ! j)) \<and>
           r = outcome (expectations s ! i) \<and>
           num_calls (expectations s' ! i) = Suc (num_calls (expectations s ! i)) \<and>
           recorded s' = recorded s @ [args])
    | Inl (Fatal msg) \<Rightarrow>
        (\<forall>i<length (expectations s). \<not> selectable (expectations s) args (expectations s ! i)) \<and>
        sublist ''DoSomething'' msg \<and>
        list_all (\<lambda>a. sublist (show_arg a) msg) args) \<and>
   (matcher_Matches (as_matcher (Value v)) x \<longleftrightarrow> x = v) \<and>
   (matcher_Matches (as_matcher (Matching (PredicateMatcher p))) x \<longleftrightarrow> p x)"
proof (cases "FindMatch s args")
  case None
  define msg where "msg = ''unexpected call to '' @ show_call args"
  from None have none: "\<forall>i<length (expectations s). \<not> selectable (expectations s) args (expectations s ! i)"
    unfolding FindMatch_def by (blast dest: find_first_None)
  from None have call: "Call s args = Inl (Fatal msg)"
    by (simp add: Call_def msg_def)
  have names_call: "sublist ''DoSomething'' msg"
    unfolding msg_def by (rule show_call_names_method)
  have names_args: "list_all (\<lambda>a. sublist (show_arg a) msg) args"
    unfolding msg_def by (rule show_call_names_args)
  from none names_call names_args show ?thesis
    by (simp add: call)
next
  case (Some i)
  then have "find_first (selectable (expectations s) args) (expectations s) 0 = Some i"
    by (simp add: FindMatch_def)
  from find_first_Some [OF this]
  have len: "i < length (expectations s)"
    and sel: "selectable (expectations s) args (expectations s ! i)"
    and first: "\<forall>j<i. \<not> selectable (expectations s) args (expectations s ! j)"
    by simp_all
  from sel have parts: "\<not> exhausted (expectations s ! i)"
    "order_eligible (expectations s) (expectations s ! i)"
    "length (matchers (expectations s ! i)) = length args"
    "\<forall>k<length args. matcher_Matches (matchers (expectations s ! i) ! k) (args ! k)"
    by (simp_all add: selectable_def args_match_def list_all2_conv_all_nth)
  from Some len parts first show ?thesis
    by (auto simp add: Call_def Let_def)
qed

theorem Call_selects_first_match_witness:
  "Call \<lparr>expectations =
      [\<lparr>matchers = [ExactValue (IntArg 123), ExactValue (StringArg ''Hello GoMock'')],
         min_calls = 1, max_calls = 1, num_calls = 1, prerequisites = [], outcome = None\<rparr>,
       \<lparr>matchers = [Wildcard, PredicateMatcher (\<lambda>a. a \<noteq> StringArg [])],
         min_calls = 0, max_calls = 2, num_calls = 0, prerequisites = [0],
         outcome = Some (errorString ''dummy error'')\<rparr>],
      recorded = []\<rparr>
     [IntArg 123, StringArg ''Hello GoMock''] =
   Inr (Some (errorString ''dummy error''),
     \<lparr>expectations =
        [\<lparr>matchers = [ExactValue (IntArg 123), ExactValue (StringArg ''Hello GoMock'')],
           min_calls = 1, max_calls = 1, num_calls = 1, prerequisites = [], outcome = None\<rparr>,
         \<lparr>matchers = [Wildcard, PredicateMatcher (\<lambda>a. a \<noteq> StringArg [])],
           min_calls = 0, max_calls = 2, num_calls = 1, prerequisites = [0],
           outcome = Some (errorString ''dummy error'')\<rparr>],
      recorded = [[IntArg 123, StringArg ''Hello GoMock'']]\<rparr>) \<and>
   \<not> selectable
      [\<lparr>matchers = [ExactValue (IntArg 123), ExactValue (StringArg ''Hello GoMock'')],
         min_calls = 1, max_calls = 1, num_calls = 1, prerequisites = [], outcome = None\<rparr>,
       \<lparr>matchers = [Wildcard, PredicateMatcher (\<lambda>a. a \<noteq> StringArg [])],
         min_calls = 0, max_calls = 2, num_calls = 0, prerequisites = [0],
         outcome = Some (errorString ''dummy error'')\<rparr>]
      [IntArg 123, StringArg ''Hello GoMock'']
      \<lparr>matchers = [ExactValue (IntArg 123), ExactValue (StringArg ''Hello GoMock'')],
        min_calls = 1, max_calls = 1, num_calls = 1, prerequisites = [], outcome = None\<rparr> \<and>
   Call \<lparr>expectations =
      [\<lparr>matchers = [ExactValue (IntArg 123), ExactValue (StringArg ''Hello GoMock'')],
         min_calls = 1, max_calls = 1, num_calls = 1, prerequisites = [], outcome = None\<rparr>],
      recorded = []\<rparr>
     [IntArg 123, StringArg ''Hello GoMock''] =
   Inl (Fatal ''unexpected call to DoSomething(123, Hello GoMock)'')"
  (is "Call ?s ?args = Inr (?r, ?s') \<and> \<not> selectable ?es ?args ?e0 \<and> Call ?t ?args = ?failure")
proof -
  have hit: "Call ?s ?args = Inr (?r, ?s')"
    by (simp add: Call_def FindMatch_def selectable_def exhausted_def satisfied_def
        order_eligible_def args_match_def)
  have miss: "Call ?t ?args = ?failure"
    by (simp add: Call_def FindMatch_def selectable_def exhausted_def show_call_def Itoa_123)
  note selected = Call_selects_first_match [of ?s ?args, unfolded hit sum.case prod.case, THEN conjunct1]
  from selected obtain i where i: "i < length (expectations ?s)"
    "\<forall>j<i. \<not> selectable (expectations ?s) ?args (expectations ?s ! j)"
    "?r = outcome (expectations ?s ! i)"
    by blast
  from i(1,3) have "i = 1"
    by (cases i) simp_all
  with i(2) have skipped: "\<not> selectable ?es ?args ?e0"
    by simp
  from hit skipped miss show ?thesis
    by blast
qed

end
